theory Spec2Isabelle
  imports Complex_Main "HOL-Library.Stream"
begin

section \<open>Data model of the traffic map script\<close>

text \<open>
  Python \<open>str\<close> values that contain non-ASCII text are lists of Unicode code points.
  The colour names are ASCII and stay HOL strings. A Python float is a finite IEEE
  double; it is modelled as the real number it denotes.
\<close>

type_synonym ustring = "nat list"

type_synonym coords = "real \<times> real"

text \<open>The three literals of lines 30, 33 and 36, code point by code point.\<close>

definition risk_high :: ustring where
  "risk_high = [39640, 21361, 38570, 32, 40, 53, 27425, 20197, 19978, 41]"

definition risk_medium :: ustring where
  "risk_medium = [27880, 24847, 32, 40, 50, 45, 52, 27425, 41]"

definition risk_low :: ustring where
  "risk_low = [26366, 32147, 30332, 29983, 32, 40, 49, 27425, 41]"

text \<open>One row of the DataFrame built at line 40, columns lat, lon, count, color, risk.\<close>

record row =
  lat :: real
  lon :: real
  count :: int
  color :: string
  risk :: ustring

type_synonym table = "row list"

section \<open>Double-precision arithmetic\<close>

text \<open>
  Every arithmetic operation on floats computes the exact result and rounds it to the
  nearest double, ties going to the even significand. \<open>round_even\<close> rounds to the nearest
  integer that way. \<open>binade n x\<close> searches the exponent \<open>e\<close> with \<open>2^e \<le> x < 2^(e+1)\<close>
  in at most \<open>n\<close> halvings or doublings; the exponents of doubles lie between -1074 and
  1023, so 1100 steps reach every one of them. \<open>expo\<close> stops at -1022, which
  gives the subnormal numbers their fixed spacing. A double has 53 significant bits, so
  the spacing of the doubles around \<open>x\<close> is \<open>2^(expo x - 52)\<close>. A result of magnitude
  \<open>2^1024\<close> or more is an infinity in IEEE arithmetic and is outside this model, as is
  NaN; neither arises from the numbers this program computes with.
\<close>

definition round_even :: "real \<Rightarrow> int" where
  "round_even x =
     (let n = \<lfloor>x\<rfloor>; d = x - of_int n
      in if d < 1 / 2 then n else if 1 / 2 < d then n + 1 else if even n then n else n + 1)"

fun binade :: "nat \<Rightarrow> real \<Rightarrow> int" where
  "binade 0 x = 0"
| "binade (Suc n) x =
     (if 2 \<le> x then binade n (x / 2) + 1
      else if x < 1 then binade n (2 * x) - 1
      else 0)"

definition expo :: "real \<Rightarrow> int" where
  "expo x = max (binade 1100 x) (- 1022)"

definition ulp :: "real \<Rightarrow> real" where
  "ulp x = 2 powi (expo x - 52)"

text \<open>\<open>fl x\<close> is the double nearest to the real \<open>x\<close>; a float literal denotes \<open>fl\<close> of its decimal.\<close>

definition fl :: "real \<Rightarrow> real" where
  "fl x = (if x = 0 then 0 else sgn x * (of_int (round_even (\<bar>x\<bar> / ulp \<bar>x\<bar>)) * ulp \<bar>x\<bar>))"

text \<open>The rounding of a positive number, without the sign.\<close>

definition flpos :: "real \<Rightarrow> real" where
  "flpos x = of_int (round_even (x / ulp x)) * ulp x"

definition fadd :: "real \<Rightarrow> real \<Rightarrow> real" where
  "fadd x y = fl (x + y)"

definition fsub :: "real \<Rightarrow> real \<Rightarrow> real" where
  "fsub x y = fl (x - y)"

definition fmul :: "real \<Rightarrow> real \<Rightarrow> real" where
  "fmul x y = fl (x * y)"

section \<open>Classification (lines 28 to 36)\<close>

definition classify :: "int \<Rightarrow> string \<times> ustring" where
  "classify c =
     (if c \<ge> 5 then (''red'', risk_high)
      else if c \<ge> 2 then (''orange'', risk_medium)
      else (''green'', risk_low))"

section \<open>The random module\<close>

text \<open>
  The generator is the stream of values that successive calls of \<open>random.random()\<close>
  return. \<open>uniform\<close>, \<open>accumulate\<close>, \<open>bisect_right\<close> and \<open>choices\<close> follow
  CPython's \<open>random.py\<close>, \<open>itertools\<close> and \<open>bisect.py\<close>.
\<close>

type_synonym rng = "real stream"

definition uniform :: "real \<Rightarrow> real \<Rightarrow> rng \<Rightarrow> real \<times> rng" where
  "uniform a b g = (fadd a (fmul (fsub b a) (shd g)), stl g)"

fun accumulate_from :: "real \<Rightarrow> real list \<Rightarrow> real list" where
  "accumulate_from acc [] = []"
| "accumulate_from acc (w # ws) = fadd acc w # accumulate_from (fadd acc w) ws"

definition accumulate :: "real list \<Rightarrow> real list" where
  "accumulate ws = (case ws of [] \<Rightarrow> [] | w # ws' \<Rightarrow> w # accumulate_from w ws')"

function bisect_right :: "real list \<Rightarrow> real \<Rightarrow> nat \<Rightarrow> nat \<Rightarrow> nat" where
  "bisect_right a x lo hi =
     (if lo < hi then
        (let mid = (lo + hi) div 2
         in if x < a ! mid then bisect_right a x lo mid
            else bisect_right a x (mid + 1) hi)
      else lo)"
  by pat_completeness auto
termination
  by (relation "measure (\<lambda>(a, x, lo, hi). hi - lo)") auto

declare bisect_right.simps [simp del]

text \<open>
  \<open>random.choices(population, weights=...)[0]\<close> with \<open>k = 1\<close>. The source calls it with
  a non-empty population and positive weights of the same length, so the
  \<open>ValueError\<close> branches of the library are not reached.
\<close>

definition choices :: "int list \<Rightarrow> real list \<Rightarrow> rng \<Rightarrow> int \<times> rng" where
  "choices population weights g =
     (let cum_weights = accumulate weights;
          total = fadd (last cum_weights) 0;
          hi = length population - 1
      in (population ! bisect_right cum_weights (fmul (shd g) total) 0 hi, stl g))"

section \<open>Data generation (lines 16 to 41)\<close>

definition base_lat :: real where
  "base_lat = fl 24.1477"

definition base_lon :: real where
  "base_lon = fl 120.6733"

text \<open>One pass through the loop body of lines 23 to 38.\<close>

definition gen_row :: "rng \<Rightarrow> row \<times> rng" where
  "gen_row g =
     (let (u1, g1) = uniform (- fl 0.05) (fl 0.05) g;
          la = fadd base_lat u1;
          (u2, g2) = uniform (- fl 0.05) (fl 0.05) g1;
          lo = fadd base_lon u2;
          (c, g3) = choices [1, 3, 6] [fl 0.5, fl 0.3, fl 0.2] g2;
          (col, rsk) = classify c
      in (\<lparr>lat = la, lon = lo, count = c, color = col, risk = rsk\<rparr>, g3))"

text \<open>\<open>for _ in range(n)\<close>, appending one row per pass.\<close>

primrec gen_rows :: "nat \<Rightarrow> rng \<Rightarrow> table \<times> rng" where
  "gen_rows 0 g = ([], g)"
| "gen_rows (Suc n) g =
     (let (r, g1) = gen_row g;
          (rs, g2) = gen_rows n g1
      in (r # rs, g2))"

definition load_data :: "rng \<Rightarrow> table \<times> rng" where
  "load_data g = gen_rows 100 g"

section \<open>Memoisation (line 15) and the server state\<close>

text \<open>
  \<open>@st.cache_data\<close> keeps the value of the first call of \<open>load_data()\<close> in the server
  process and hands a copy of it to every later call without running the body. The cache
  belongs to the process, not to a page load. The state that outlives one run of the
  script is that cache together with the state of the random generator;
  \<open>generations\<close> counts how often the body of \<open>load_data\<close> has run.
\<close>

record server =
  cache :: "table option"
  rand :: rng
  generations :: nat

definition load_data_cached :: "server \<Rightarrow> table \<times> server" where
  "load_data_cached sv =
     (case cache sv of
        Some df \<Rightarrow> (df, sv)
      | None \<Rightarrow>
         (let (df, g) = load_data (rand sv)
          in (df, \<lparr>cache = Some df, rand = g, generations = generations sv + 1\<rparr>)))"

section \<open>Geocoding (lines 59 to 69)\<close>

text \<open>
  What one call of \<open>geolocator.geocode\<close> does: it returns a location, returns \<open>None\<close>, or
  raises an exception. \<open>GeocoderTimedOut\<close> is the only class the source catches;
  \<open>GeocoderUnavailable\<close> and \<open>GeocoderServiceError\<close> stand for the other classes of
  \<open>geopy.exc\<close>, which leave \<open>get_coordinates\<close> uncaught and end the run of the script.
  The service is the stream of its answers to successive calls, each answer a function
  of the query string.
\<close>

datatype exn = GeocoderTimedOut | GeocoderUnavailable | GeocoderServiceError

datatype geocode_reply = Location real real | NoResult | Raises exn

type_synonym geocoder = "(ustring \<Rightarrow> geocode_reply) stream"

definition taichung_prefix :: ustring where
  "taichung_prefix = [21488, 20013, 24066, 32]"

definition get_coordinates :: "geocoder \<Rightarrow> ustring \<Rightarrow> (exn + coords option) \<times> geocoder" where
  "get_coordinates geo address =
     (case shd geo (taichung_prefix @ address) of
        Location la lo \<Rightarrow> (Inr (Some (la, lo)), stl geo)
      | NoResult \<Rightarrow> (Inr None, stl geo)
      | Raises e \<Rightarrow> (if e = GeocoderTimedOut then Inr None else Inl e, stl geo))"

section \<open>The page (lines 45 to 142)\<close>

text \<open>
  The three sidebar widgets, the elements added to the folium map, and the calls of
  \<open>st.success\<close>, \<open>st.warning\<close> and \<open>st.error\<close>. A \<open>CircleMarker\<close> carries location,
  radius, colour and the count and risk label of its popup; a \<open>Marker\<close> location, icon
  colour, icon and tooltip; a \<open>PolyLine\<close> locations, colour, weight and dash array.
  \<open>Success\<close> carries the two addresses of its text, \<open>Warning\<close> the two numbers.
\<close>

record widgets =
  run_btn :: bool
  start_location :: ustring
  end_location :: ustring

datatype map_element =
    CircleMarker coords nat string int ustring
  | Marker coords string string ustring
  | PolyLine "coords list" string nat string

datatype message = Success ustring ustring | Warning nat nat | Error

text \<open>
  The variables of one run of the script: the table \<open>df_accidents\<close> of line 43, the
  map \<open>m\<close> with its elements and fitted bounds, and the messages shown so far.
\<close>

record run_state =
  df_accidents :: table
  layers :: "map_element list"
  fit_bounds :: "coords list option"
  messages :: "message list"

text \<open>
  What a completed run shows: the final variables, the bar chart of line 138 (the
  number of rows of each risk label) and the overview of line 142 (the first five rows).
\<close>

record page = run_state +
  risk_chart :: "ustring \<Rightarrow> nat"
  overview :: table

definition start_tooltip :: ustring where
  "start_tooltip = [36215, 40670]"

definition end_tooltip :: ustring where
  "end_tooltip = [32066, 40670]"

text \<open>Lines 72 to 84: the map with one circle per row of the table.\<close>

definition circle_markers :: "table \<Rightarrow> map_element list" where
  "circle_markers df =
     map (\<lambda>r. CircleMarker (lat r, lon r) (if color r = ''green'' then 5 else 8)
                  (color r) (count r) (risk r)) df"

text \<open>pandas \<open>Series.between\<close>, inclusive on both sides.\<close>

definition between :: "real \<Rightarrow> real \<Rightarrow> real \<Rightarrow> bool" where
  "between x left right = (left \<le> x \<and> x \<le> right)"

text \<open>Lines 111 to 119.\<close>

definition nearby_accidents :: "table \<Rightarrow> coords \<Rightarrow> coords \<Rightarrow> table" where
  "nearby_accidents df start_coords end_coords =
     (let min_lat = min (fst start_coords) (fst end_coords);
          max_lat = max (fst start_coords) (fst end_coords);
          min_lon = min (snd start_coords) (snd end_coords);
          max_lon = max (snd start_coords) (snd end_coords)
      in filter (\<lambda>r. between (lat r) (fsub min_lat (fl 0.01)) (fadd max_lat (fl 0.01)) \<and>
                      between (lon r) (fsub min_lon (fl 0.01)) (fadd max_lon (fl 0.01))) df)"

text \<open>Line 122.\<close>

definition high_risk_count :: "table \<Rightarrow> nat" where
  "high_risk_count nearby = length (filter (\<lambda>r. count r \<ge> 5) nearby)"

text \<open>
  Lines 87 to 126: the handler of the button, acting on the variables of the run. An
  exception that \<open>get_coordinates\<close> lets through ends the handler at that call.
\<close>

definition handler :: "run_state \<Rightarrow> geocoder \<Rightarrow> widgets \<Rightarrow> (exn + run_state) \<times> geocoder" where
  "handler st geo w =
     (if run_btn w \<and> start_location w \<noteq> [] \<and> end_location w \<noteq> [] then
        (case get_coordinates geo (start_location w) of
           (Inl x, geo1) \<Rightarrow> (Inl x, geo1)
         | (Inr start_coords, geo1) \<Rightarrow>
            (case get_coordinates geo1 (end_location w) of
               (Inl x, geo2) \<Rightarrow> (Inl x, geo2)
             | (Inr end_coords, geo2) \<Rightarrow>
                (let not_found = st\<lparr>messages := messages st @ [Error]\<rparr>
                 in case start_coords of
                      None \<Rightarrow> (Inr not_found, geo2)
                    | Some s \<Rightarrow>
                       (case end_coords of
                          None \<Rightarrow> (Inr not_found, geo2)
                        | Some e \<Rightarrow>
                           (let nearby = nearby_accidents (df_accidents st) s e
                            in (Inr (st\<lparr>layers := layers st @
                                        [Marker s ''blue'' ''play'' start_tooltip,
                                         Marker e ''black'' ''stop'' end_tooltip,
                                         PolyLine [s, e] ''blue'' 2 ''5''],
                                   fit_bounds := Some [s, e],
                                   messages := messages st @
                                        [Success (start_location w) (end_location w)] @
                                        (if nearby \<noteq> []
                                         then [Warning (length nearby) (high_risk_count nearby)]
                                         else [])\<rparr>),
                                geo2))))))
      else (Inr st, geo))"

text \<open>Line 138: \<open>value_counts\<close> of the risk column.\<close>

definition value_counts :: "table \<Rightarrow> ustring \<Rightarrow> nat" where
  "value_counts df label = length (filter (\<lambda>r. risk r = label) df)"

text \<open>Lines 128 to 142: the map is shown, then the statistics of \<open>df_accidents\<close>.\<close>

definition statistics :: "run_state \<Rightarrow> page" where
  "statistics st =
     \<lparr>df_accidents = df_accidents st, layers = layers st, fit_bounds = fit_bounds st,
      messages = messages st, risk_chart = value_counts (df_accidents st),
      overview = take 5 (df_accidents st)\<rparr>"

text \<open>
  The page drawn from a given table, lines 72 to 142; an uncaught exception ends the
  run before the map and the statistics are shown.
\<close>

definition render :: "table \<Rightarrow> geocoder \<Rightarrow> widgets \<Rightarrow> (exn + page) \<times> geocoder" where
  "render df geo w =
     (case handler \<lparr>df_accidents = df, layers = circle_markers df, fit_bounds = None,
                    messages = []\<rparr> geo w of
        (Inl x, geo1) \<Rightarrow> (Inl x, geo1)
      | (Inr st, geo1) \<Rightarrow> (Inr (statistics st), geo1))"

text \<open>One run of the script: line 43, then the page.\<close>

definition script :: "server \<Rightarrow> geocoder \<Rightarrow> widgets \<Rightarrow> (exn + page) \<times> server \<times> geocoder" where
  "script sv geo w =
     (let (df, sv1) = load_data_cached sv;
          (pg, geo1) = render df geo w
      in (pg, sv1, geo1))"

text \<open>
  A page load is a sequence of runs of the script, one per interaction, each run
  starting from the server state and the geocoding service the previous run left.
\<close>

fun session :: "server \<Rightarrow> geocoder \<Rightarrow> widgets list \<Rightarrow> (exn + page) list \<times> server \<times> geocoder" where
  "session sv geo [] = ([], sv, geo)"
| "session sv geo (w # ws) =
     (let (pg, sv1, geo1) = script sv geo w;
          (pgs, sv2, geo2) = session sv1 geo1 ws
      in (pg # pgs, sv2, geo2))"

text \<open>The same sequence of interactions drawn from one fixed table.\<close>

fun renders :: "table \<Rightarrow> geocoder \<Rightarrow> widgets list \<Rightarrow> (exn + page) list \<times> geocoder" where
  "renders df geo [] = ([], geo)"
| "renders df geo (w # ws) =
     (let (pg, geo1) = render df geo w;
          (pgs, geo2) = renders df geo1 ws
      in (pg # pgs, geo2))"

text \<open>The locations of the polylines on a map.\<close>

fun polylines :: "map_element list \<Rightarrow> coords list list" where
  "polylines [] = []"
| "polylines (PolyLine locs c w d # es) = locs # polylines es"
| "polylines (e # es) = polylines es"

text \<open>The start and end markers on a map.\<close>

fun markers :: "map_element list \<Rightarrow> map_element list" where
  "markers [] = []"
| "markers (Marker loc c i t # es) = Marker loc c i t # markers es"
| "markers (e # es) = markers es"

section \<open>Lemmas about rounding\<close>

lemma powi2_plus1: "(2::real) powi (k + 1) = 2 * 2 powi k"
  by (simp add: power_int_add)

lemma powi2_minus1: "(2::real) powi (k - 1) = 2 powi k / 2"
  by (simp add: power_int_diff)

lemma round_even_of_int: "round_even (of_int n) = n"
  by (simp add: round_even_def)

lemma round_even_range: "\<lfloor>x\<rfloor> \<le> round_even x \<and> round_even x \<le> \<lfloor>x\<rfloor> + 1"
  by (simp add: round_even_def Let_def)

lemma round_even_mono: "x \<le> y \<Longrightarrow> round_even x \<le> round_even y"
proof -
  assume xy: "x \<le> y"
  then have f: "\<lfloor>x\<rfloor> \<le> \<lfloor>y\<rfloor>" by (rule floor_mono)
  show ?thesis
  proof (cases "\<lfloor>x\<rfloor> = \<lfloor>y\<rfloor>")
    case True
    with xy show ?thesis by (auto simp: round_even_def Let_def)
  next
    case False
    with f have "\<lfloor>x\<rfloor> + 1 \<le> \<lfloor>y\<rfloor>" by simp
    with round_even_range [of x] round_even_range [of y] show ?thesis by linarith
  qed
qed

lemma binade_range: "- int n \<le> binade n x \<and> binade n x \<le> int n"
proof (induction n arbitrary: x)
  case 0
  show ?case by simp
next
  case (Suc n)
  from Suc [of "x / 2"] Suc [of "2 * x"] show ?case by simp
qed

lemma binade_upper: "0 < x \<Longrightarrow> binade n x < int n \<Longrightarrow> x < 2 powi (binade n x + 1)"
proof (induction n arbitrary: x)
  case 0
  then show ?case by simp
next
  case (Suc n)
  show ?case
  proof (cases "2 \<le> x")
    case True
    with Suc.prems have "binade n (x / 2) < int n" by simp
    with Suc.IH [of "x / 2"] Suc.prems have "x / 2 < 2 powi (binade n (x / 2) + 1)" by simp
    then have "x < 2 * 2 powi (binade n (x / 2) + 1)" by simp
    then have "x < 2 powi (binade n (x / 2) + 1 + 1)"
      by (simp only: powi2_plus1 [of "binade n (x / 2) + 1"])
    moreover have "binade (Suc n) x = binade n (x / 2) + 1" using True by simp
    ultimately show ?thesis by simp
  next
    case False
    show ?thesis
    proof (cases "x < 1")
      case True
      from binade_range [of n "2 * x"] have "binade n (2 * x) < int n \<or> binade n (2 * x) = int n"
        by linarith
      then show ?thesis
      proof
        assume "binade n (2 * x) < int n"
        with Suc.IH [of "2 * x"] Suc.prems have "2 * x < 2 powi (binade n (2 * x) + 1)" by simp
        then have "x < 2 powi (binade n (2 * x))"
          by (simp add: power_int_add [of 2 _ 1])
        with True \<open>\<not> 2 \<le> x\<close> show ?thesis by simp
      next
        assume e: "binade n (2 * x) = int n"
        have "(1::real) \<le> 2 powi (int n)" by (simp add: one_le_power_int)
        with True have "x < 2 powi (int n)" by linarith
        with True \<open>\<not> 2 \<le> x\<close> e show ?thesis by simp
      qed
    next
      case False
      with \<open>\<not> 2 \<le> x\<close> show ?thesis by simp
    qed
  qed
qed

lemma binade_lower: "0 < x \<Longrightarrow> - int n < binade n x \<Longrightarrow> 2 powi (binade n x) \<le> x"
proof (induction n arbitrary: x)
  case 0
  then show ?case by simp
next
  case (Suc n)
  show ?case
  proof (cases "2 \<le> x")
    case True
    from binade_range [of n "x / 2"] have "- int n < binade n (x / 2) \<or> binade n (x / 2) = - int n"
      by linarith
    then show ?thesis
    proof
      assume "- int n < binade n (x / 2)"
      with Suc.IH [of "x / 2"] Suc.prems have "2 powi (binade n (x / 2)) \<le> x / 2" by simp
      then have "2 powi (binade n (x / 2) + 1) \<le> x"
        by (simp add: power_int_add [of 2 _ 1])
      with True show ?thesis by simp
    next
      assume e: "binade n (x / 2) = - int n"
      have "2 powi (- int n + 1) \<le> (2::real)"
        using power_int_increasing [of "- int n + 1" 1 "2::real"] by simp
      with True e show ?thesis by simp
    qed
  next
    case False
    show ?thesis
    proof (cases "x < 1")
      case True
      with False Suc.prems have "- int n < binade n (2 * x)" by simp
      with Suc.IH [of "2 * x"] Suc.prems have "2 powi (binade n (2 * x)) \<le> 2 * x" by simp
      then have "2 powi (binade n (2 * x) - 1) \<le> x"
        by (simp add: power_int_diff)
      with True False show ?thesis by simp
    next
      case False
      with \<open>\<not> 2 \<le> x\<close> show ?thesis by simp
    qed
  qed
qed


lemma powi2_le: "a \<le> b \<Longrightarrow> (2::real) powi a \<le> 2 powi b"
  by (rule power_int_increasing) simp_all

lemma powi2_less_cancel: "(2::real) powi a < 2 powi b \<Longrightarrow> a < b"
  using powi2_le [of b a] by (cases "a < b") simp_all

lemma binade_mono:
  assumes "0 < x" and "x \<le> y"
  shows "binade n x \<le> binade n y"
proof (rule ccontr)
  assume "\<not> binade n x \<le> binade n y"
  then have lt: "binade n y < binade n x" by simp
  with binade_range [of n y] have "- int n < binade n x" by linarith
  with binade_lower [of x n] assms have lo: "2 powi (binade n x) \<le> x" by simp
  from lt binade_range [of n x] have "binade n y < int n" by linarith
  with binade_upper [of y n] assms have "y < 2 powi (binade n y + 1)" by simp
  also have "\<dots> \<le> 2 powi (binade n x)" using lt by (intro powi2_le) simp
  finally show False using lo assms by linarith
qed

lemma binade_unique:
  assumes "0 < x" and "2 powi e \<le> x" and "x < 2 powi (e + 1)" and "- int n < e" and "e < int n"
  shows "binade n x = e"
proof -
  have up: "binade n x < int n"
  proof (rule ccontr)
    assume "\<not> binade n x < int n"
    with binade_range [of n x] have b: "binade n x = int n" by linarith
    with binade_lower [of x n] assms have "2 powi (int n) \<le> x" by simp
    with assms(3) have "(2::real) powi (int n) < 2 powi (e + 1)" by linarith
    from powi2_less_cancel [OF this] assms(5) show False by simp
  qed
  have lo: "- int n < binade n x"
  proof (rule ccontr)
    assume "\<not> - int n < binade n x"
    with binade_range [of n x] have b: "binade n x = - int n" by linarith
    with binade_upper [of x n] assms up have "x < 2 powi (- int n + 1)" by simp
    with assms(2) have "(2::real) powi e < 2 powi (- int n + 1)" by linarith
    from powi2_less_cancel [OF this] assms(4) show False by simp
  qed
  from binade_upper [OF assms(1) up] assms(2)
  have "(2::real) powi e < 2 powi (binade n x + 1)" by linarith
  then have 1: "e < binade n x + 1" by (rule powi2_less_cancel)
  from binade_lower [OF assms(1) lo] assms(3)
  have "(2::real) powi (binade n x) < 2 powi (e + 1)" by linarith
  then have 2: "binade n x < e + 1" by (rule powi2_less_cancel)
  from 1 2 show ?thesis by simp
qed

lemma expo_mono: "0 < x \<Longrightarrow> x \<le> y \<Longrightarrow> expo x \<le> expo y"
  using binade_mono [of x y 1100] by (simp add: expo_def)

lemma expo_range: "- 1022 \<le> expo x \<and> expo x \<le> 1100"
  using binade_range [of 1100 x] by (simp add: expo_def)

lemma expo_upper:
  assumes "0 < x" and "expo x < 1100"
  shows "x < 2 powi (expo x + 1)"
proof -
  from assms(2) have b: "binade 1100 x < int 1100" by (simp add: expo_def)
  from binade_upper [OF assms(1) b] have "x < 2 powi (binade 1100 x + 1)" .
  also have "\<dots> \<le> 2 powi (expo x + 1)" by (intro powi2_le) (simp add: expo_def)
  finally show ?thesis .
qed

lemma expo_lower:
  assumes "0 < x" and "- 1022 < expo x"
  shows "2 powi (expo x) \<le> x"
proof -
  from assms(2) have e: "expo x = binade 1100 x" by (simp add: expo_def max_def split: if_splits)
  with assms(2) have "- int 1100 < binade 1100 x" by simp
  from binade_lower [OF assms(1) this] e show ?thesis by simp
qed

lemma ulp_pos: "0 < ulp x"
  by (simp add: ulp_def)

lemma fl_flpos: "fl x = (if x = 0 then 0 else sgn x * flpos \<bar>x\<bar>)"
  by (simp add: fl_def flpos_def)

lemma round_even_nonneg: "0 \<le> x \<Longrightarrow> 0 \<le> round_even x"
  using round_even_mono [of 0 x] round_even_of_int [of 0] by simp

lemma flpos_nonneg: "0 \<le> x \<Longrightarrow> 0 \<le> flpos x"
  using round_even_nonneg [of "x / ulp x"] ulp_pos [of x] by (simp add: flpos_def)

lemma flpos_mono:
  assumes "0 < x" and "x \<le> y"
  shows "flpos x \<le> flpos y"
proof (cases "expo x = expo y")
  case True
  then have u: "ulp x = ulp y" by (simp add: ulp_def)
  have "x / ulp y \<le> y / ulp y" using assms ulp_pos [of y] by (simp add: divide_right_mono)
  then have "round_even (x / ulp y) \<le> round_even (y / ulp y)" by (rule round_even_mono)
  then have "(of_int (round_even (x / ulp y)) :: real) \<le> of_int (round_even (y / ulp y))" by simp
  then show ?thesis using ulp_pos [of y] by (simp add: flpos_def u mult_right_mono)
next
  case False
  with expo_mono [OF assms] have lt: "expo x < expo y" by simp
  with expo_range [of y] have "expo x < 1100" by linarith
  from expo_upper [OF assms(1) this] have xu: "x < 2 powi (expo x + 1)" .
  have split1: "(2::real) powi (expo x + 1) = 2 powi 53 * 2 powi (expo x - 52)"
    using power_int_add [of "2::real" 53 "expo x - 52"] by (simp add: add.commute)
  have "x / ulp x < 2 powi 53"
    using xu ulp_pos [of x] by (simp add: ulp_def split1 pos_divide_less_eq)
  then have "x / ulp x \<le> of_int (2 ^ 53)" by simp
  from round_even_mono [OF this] have "round_even (x / ulp x) \<le> 2 ^ 53"
    by (simp only: round_even_of_int)
  then have "(of_int (round_even (x / ulp x)) :: real) \<le> of_int (2 ^ 53)"
    by (simp only: of_int_le_iff)
  then have "flpos x \<le> of_int (2 ^ 53) * ulp x"
    using ulp_pos [of x] by (simp only: flpos_def mult_right_mono less_imp_le)
  also have "\<dots> = 2 powi (expo x + 1)" by (simp add: ulp_def split1)
  also have "\<dots> \<le> 2 powi (expo y)" using lt by (intro powi2_le) simp
  finally have a: "flpos x \<le> 2 powi (expo y)" .
  from lt expo_range [of x] have "- 1022 < expo y" by linarith
  from expo_lower [OF _ this] assms have yl: "2 powi (expo y) \<le> y" by simp
  have split2: "(2::real) powi (expo y) = 2 powi 52 * 2 powi (expo y - 52)"
    using power_int_add [of "2::real" 52 "expo y - 52"] by (simp add: add.commute)
  have "2 powi 52 \<le> y / ulp y"
    using yl ulp_pos [of y] by (simp add: ulp_def split2 pos_le_divide_eq)
  then have "of_int (2 ^ 52) \<le> y / ulp y" by simp
  from round_even_mono [OF this] have "2 ^ 52 \<le> round_even (y / ulp y)"
    by (simp only: round_even_of_int)
  then have "(of_int (2 ^ 52) :: real) \<le> of_int (round_even (y / ulp y))"
    by (simp only: of_int_le_iff)
  then have "of_int (2 ^ 52) * ulp y \<le> flpos y"
    using ulp_pos [of y] by (simp only: flpos_def mult_right_mono less_imp_le)
  moreover have "of_int (2 ^ 52) * ulp y = 2 powi (expo y)" by (simp add: ulp_def split2)
  ultimately have "2 powi (expo y) \<le> flpos y" by simp
  with a show ?thesis by linarith
qed

lemma fl_zero: "fl 0 = 0"
  by (simp add: fl_def)

lemma fl_minus: "fl (- x) = - fl x"
  by (simp add: fl_def sgn_minus)

lemma fl_nonneg: "0 \<le> x \<Longrightarrow> 0 \<le> fl x"
  using flpos_nonneg [of x] by (simp add: fl_flpos)

lemma fl_mono:
  assumes "x \<le> y"
  shows "fl x \<le> fl y"
proof -
  consider "0 < x" | "x \<le> 0" "0 \<le> y" | "y < 0" using assms by linarith
  then show ?thesis
  proof cases
    case 1
    with assms flpos_mono [of x y] show ?thesis by (simp add: fl_flpos)
  next
    case 2
    from fl_nonneg [of "- x"] 2 have "fl x \<le> 0" by (simp add: fl_minus)
    with fl_nonneg [of y] 2 show ?thesis by linarith
  next
    case 3
    with assms flpos_mono [of "- y" "- x"] show ?thesis by (simp add: fl_flpos)
  qed
qed

lemma fl_eval:
  assumes "0 < x" and "2 powi e \<le> x" and "x < 2 powi (e + 1)" and "- 1022 \<le> e" and "e \<le> 1023"
  shows "fl x = of_int (round_even (x / 2 powi (e - 52))) * 2 powi (e - 52)"
proof -
  from assms have "binade 1100 x = e" by (intro binade_unique) simp_all
  with assms(4) have "expo x = e" by (simp add: expo_def)
  with assms(1) show ?thesis by (simp add: fl_def ulp_def)
qed

text \<open>The roundings that the concrete runs below perform.\<close>

lemma fl_val_1: "fl (1 / 100) = 5764607523034235 / 576460752303423488"
  by (subst fl_eval [of _ "- 7"]) (simp_all add: round_even_def)

lemma fl_val_2: "fl (1 / 20) = 3602879701896397 / 72057594037927936"
  by (subst fl_eval [of _ "- 5"]) (simp_all add: round_even_def)

lemma fl_val_3: "fl (3602879701896397 / 72057594037927936) = 3602879701896397 / 72057594037927936"
  by (subst fl_eval [of _ "- 5"]) (simp_all add: round_even_def)

lemma fl_val_4: "fl (3602879701896397 / 36028797018963968) = 3602879701896397 / 36028797018963968"
  by (subst fl_eval [of _ "- 4"]) (simp_all add: round_even_def)

lemma fl_val_5: "fl (1 / 5) = 3602879701896397 / 18014398509481984"
  by (subst fl_eval [of _ "- 3"]) (simp_all add: round_even_def)

lemma fl_val_6: "fl (3 / 10) = 5404319552844595 / 18014398509481984"
  by (subst fl_eval [of _ "- 2"]) (simp_all add: round_even_def)

lemma fl_val_7: "fl (1 / 2) = 1 / 2"
  by (subst fl_eval [of _ "- 1"]) (simp_all add: round_even_def)

lemma fl_val_8: "fl (14411518807585587 / 18014398509481984) = 3602879701896397 / 4503599627370496"
  by (subst fl_eval [of _ "- 1"]) (simp_all add: round_even_def)

lemma fl_val_9: "fl (1) = 1"
  by (subst fl_eval [of _ "0"]) (simp_all add: round_even_def)

lemma fl_val_10: "fl (18014398509481985 / 18014398509481984) = 1"
  by (subst fl_eval [of _ "0"]) (simp_all add: round_even_def)

lemma fl_val_11: "fl (1736422283847776051 / 72057594037927936) = 6782899546280375 / 281474976710656"
  by (subst fl_eval [of _ "4"]) (simp_all add: round_even_def)

lemma fl_val_12: "fl (13909997953081609093 / 576460752303423488) = 6791991188028129 / 281474976710656"
  by (subst fl_eval [of _ "4"]) (simp_all add: round_even_def)

lemma fl_val_13: "fl (13914436700874345349 / 576460752303423488) = 6794158545348801 / 281474976710656"
  by (subst fl_eval [of _ "4"]) (simp_all add: round_even_def)

lemma fl_val_14: "fl (24139 / 1000) = 6794524462818525 / 281474976710656"
  by (subst fl_eval [of _ "4"]) (simp_all add: round_even_def)

lemma fl_val_15: "fl (6794805937795235 / 281474976710656) = 6794805937795235 / 281474976710656"
  by (subst fl_eval [of _ "4"]) (simp_all add: round_even_def)

lemma fl_val_16: "fl (13915762560604642181 / 576460752303423488) = 6794805937795235 / 281474976710656"
  by (subst fl_eval [of _ "4"]) (simp_all add: round_even_def)

lemma fl_val_17: "fl (1207 / 50) = 1698701484448809 / 70368744177664"
  by (subst fl_eval [of _ "4"]) (simp_all add: round_even_def)

lemma fl_val_18: "fl (241477 / 10000) = 1699243323778977 / 70368744177664"
  by (subst fl_eval [of _ "4"]) (simp_all add: round_even_def)

lemma fl_val_19: "fl (1699243323778977 / 70368744177664) = 1699243323778977 / 70368744177664"
  by (subst fl_eval [of _ "4"]) (simp_all add: round_even_def)

lemma fl_val_20: "fl (483 / 20) = 3398810343781171 / 140737488355328"
  by (subst fl_eval [of _ "4"]) (simp_all add: round_even_def)

lemma fl_val_21: "fl (13925965915920413819 / 576460752303423488) = 6799788044883015 / 281474976710656"
  by (subst fl_eval [of _ "4"]) (simp_all add: round_even_def)

lemma fl_val_22: "fl (13927291775650710651 / 576460752303423488) = 6800435437329449 / 281474976710656"
  by (subst fl_eval [of _ "4"]) (simp_all add: round_even_def)

lemma fl_val_23: "fl (2417 / 100) = 1700812546774139 / 70368744177664"
  by (subst fl_eval [of _ "4"]) (simp_all add: round_even_def)

lemma fl_val_24: "fl (13938820990696780923 / 576460752303423488) = 6806064936863663 / 281474976710656"
  by (subst fl_eval [of _ "4"]) (simp_all add: round_even_def)

lemma fl_val_25: "fl (2419 / 100) = 6808879686630769 / 281474976710656"
  by (subst fl_eval [of _ "4"]) (simp_all add: round_even_def)

lemma fl_val_26: "fl (1743628043251568845 / 72057594037927936) = 6811047043951441 / 281474976710656"
  by (subst fl_eval [of _ "4"]) (simp_all add: round_even_def)

lemma fl_val_27: "fl (14002231673450156933 / 576460752303423488) = 3418513592150917 / 140737488355328"
  by (subst fl_eval [of _ "4"]) (simp_all add: round_even_def)

lemma fl_val_28: "fl (243 / 10) = 6839841934068941 / 281474976710656"
  by (subst fl_eval [of _ "4"]) (simp_all add: round_even_def)

lemma fl_val_29: "fl (14013760888496225403 / 576460752303423488) = 427666042739753 / 17592186044416"
  by (subst fl_eval [of _ "4"]) (simp_all add: round_even_def)

lemma fl_val_30: "fl (8691824782915192627 / 72057594037927936) = 4244055069782809 / 35184372088832"
  by (subst fl_eval [of _ "6"]) (simp_all add: round_even_def)

lemma fl_val_31: "fl (69549989765408041861 / 576460752303423488) = 8489988985035161 / 70368744177664"
  by (subst fl_eval [of _ "6"]) (simp_all add: round_even_def)

lemma fl_val_32: "fl (2413 / 20) = 4244994492517581 / 35184372088832"
  by (subst fl_eval [of _ "6"]) (simp_all add: round_even_def)

lemma fl_val_33: "fl (6033 / 50) = 4245346336238469 / 35184372088832"
  by (subst fl_eval [of _ "6"]) (simp_all add: round_even_def)

lemma fl_val_34: "fl (69555754372931079045 / 576460752303423488) = 4245346336238469 / 35184372088832"
  by (subst fl_eval [of _ "6"]) (simp_all add: round_even_def)

lemma fl_val_35: "fl (69557656693413677957 / 576460752303423488) = 2122731222333181 / 17592186044416"
  by (subst fl_eval [of _ "6"]) (simp_all add: round_even_def)

lemma fl_val_36: "fl (12067 / 100) = 8491396359918715 / 70368744177664"
  by (subst fl_eval [of _ "6"]) (simp_all add: round_even_def)

lemma fl_val_37: "fl (8491628576774501 / 70368744177664) = 8491628576774501 / 70368744177664"
  by (subst fl_eval [of _ "6"]) (simp_all add: round_even_def)

lemma fl_val_38: "fl (1206733 / 10000) = 8491628576774501 / 70368744177664"
  by (subst fl_eval [of _ "6"]) (simp_all add: round_even_def)

lemma fl_val_39: "fl (3017 / 25) = 2123025011840123 / 17592186044416"
  by (subst fl_eval [of _ "6"]) (simp_all add: round_even_def)

lemma fl_val_40: "fl (69567283587977147515 / 576460752303423488) = 2123025011840123 / 17592186044416"
  by (subst fl_eval [of _ "6"]) (simp_all add: round_even_def)

lemma fl_val_41: "fl (69569185908459746427 / 576460752303423488) = 4246166132108139 / 35184372088832"
  by (subst fl_eval [of _ "6"]) (simp_all add: round_even_def)

lemma fl_val_42: "fl (12069 / 100) = 2123200933700567 / 17592186044416"
  by (subst fl_eval [of _ "6"]) (simp_all add: round_even_def)

lemma fl_val_43: "fl (69573048195500182405 / 576460752303423488) = 2123200933700567 / 17592186044416"
  by (subst fl_eval [of _ "6"]) (simp_all add: round_even_def)

lemma fl_val_44: "fl (69578812803023213691 / 576460752303423488) = 8493507422244045 / 70368744177664"
  by (subst fl_eval [of _ "6"]) (simp_all add: round_even_def)

lemma fl_val_45: "fl (1207 / 10) = 8493507422244045 / 70368744177664"
  by (subst fl_eval [of _ "6"]) (simp_all add: round_even_def)

lemma fl_val_46: "fl (69584577410546250875 / 576460752303423488) = 4247105554842911 / 35184372088832"
  by (subst fl_eval [of _ "6"]) (simp_all add: round_even_def)

lemma fl_val_47: "fl (8699030542318985421 / 72057594037927936) = 1061893376747923 / 8796093022208"
  by (subst fl_eval [of _ "6"]) (simp_all add: round_even_def)

lemmas fl_vals = fl_val_1 fl_val_2 fl_val_3 fl_val_4 fl_val_5 fl_val_6 fl_val_7 fl_val_8 fl_val_9 fl_val_10 fl_val_11 fl_val_12 fl_val_13 fl_val_14 fl_val_15 fl_val_16 fl_val_17 fl_val_18 fl_val_19 fl_val_20 fl_val_21 fl_val_22 fl_val_23 fl_val_24 fl_val_25 fl_val_26 fl_val_27 fl_val_28 fl_val_29 fl_val_30 fl_val_31 fl_val_32 fl_val_33 fl_val_34 fl_val_35 fl_val_36 fl_val_37 fl_val_38 fl_val_39 fl_val_40 fl_val_41 fl_val_42 fl_val_43 fl_val_44 fl_val_45 fl_val_46 fl_val_47

section \<open>Lemmas about the generator and the generated rows\<close>

lemma bisect_right_bounds:
  "lo \<le> hi \<Longrightarrow> lo \<le> bisect_right a x lo hi \<and> bisect_right a x lo hi \<le> hi"
proof (induction a x lo hi rule: bisect_right.induct)
  case (1 a x lo hi)
  show ?case
  proof (cases "lo < hi")
    case False
    then have "bisect_right a x lo hi = lo"
      by (subst bisect_right.simps) simp
    with "1.prems" show ?thesis by simp
  next
    case True
    define mid where "mid = (lo + hi) div 2"
    have m: "lo \<le> mid" "mid + 1 \<le> hi" using True by (simp_all add: mid_def)
    show ?thesis
    proof (cases "x < a ! mid")
      case True
      from "1.IH"(1) [OF \<open>lo < hi\<close> mid_def True m(1)] m \<open>lo < hi\<close> True
      show ?thesis by (simp add: bisect_right.simps [of a x lo hi] mid_def)
    next
      case False
      from "1.IH"(2) [OF \<open>lo < hi\<close> mid_def False m(2)] m \<open>lo < hi\<close> False
      show ?thesis by (simp add: bisect_right.simps [of a x lo hi] mid_def)
    qed
  qed
qed

lemma choices_population:
  "population \<noteq> [] \<Longrightarrow> fst (choices population weights g) \<in> set population"
proof -
  assume ne: "population \<noteq> []"
  have "bisect_right a x 0 (length population - 1) \<le> length population - 1" for a x
    using bisect_right_bounds [of 0 "length population - 1"] by simp
  with ne have "bisect_right a x 0 (length population - 1) < length population" for a x
    by (cases population) (simp_all add: le_imp_less_Suc)
  then show ?thesis by (simp add: choices_def Let_def)
qed

lemma choices_rng: "snd (choices population weights g) = stl g"
  by (simp add: choices_def Let_def)

lemma gen_row_count: "count (fst (gen_row g)) \<in> {1, 3, 6}"
  using choices_population [of "[1, 3, 6]" "[fl 0.5, fl 0.3, fl 0.2]" "stl (stl g)"]
  by (simp add: gen_row_def uniform_def split_beta Let_def)

lemma gen_row_classified:
  "(color (fst (gen_row g)), risk (fst (gen_row g))) = classify (count (fst (gen_row g)))"
  by (simp add: gen_row_def uniform_def split_beta Let_def)

lemma gen_row_rng: "snd (gen_row g) = stl (stl (stl g))"
  by (simp add: gen_row_def uniform_def split_beta Let_def choices_rng)

lemma gen_rows_rng: "snd (gen_rows n g) = sdrop (3 * n) g"
proof (induction n arbitrary: g)
  case 0
  show ?case by simp
next
  case (Suc n)
  have three: "stl (stl (stl g)) = sdrop 3 g"
    by (simp add: numeral_3_eq_3)
  have "snd (gen_rows (Suc n) g) = sdrop (3 * n) (sdrop 3 g)"
    by (simp add: split_beta Let_def gen_row_rng Suc.IH three del: sdrop_add)
  then show ?case by simp
qed

lemma gen_rows_count: "p \<in> set (fst (gen_rows n g)) \<Longrightarrow> count p \<in> {1, 3, 6}"
proof (induction n arbitrary: g)
  case 0
  then show ?case by simp
next
  case (Suc n)
  from Suc.prems have "p = fst (gen_row g) \<or> p \<in> set (fst (gen_rows n (snd (gen_row g))))"
    by (simp add: split_beta Let_def)
  then show ?case
    using gen_row_count [of g] Suc.IH by blast
qed

lemma gen_rows_classified:
  "p \<in> set (fst (gen_rows n g)) \<Longrightarrow> (color p, risk p) = classify (count p)"
proof (induction n arbitrary: g)
  case 0
  then show ?case by simp
next
  case (Suc n)
  from Suc.prems have "p = fst (gen_row g) \<or> p \<in> set (fst (gen_rows n (snd (gen_row g))))"
    by (simp add: split_beta Let_def)
  then show ?case
    using gen_row_classified [of g] Suc.IH by blast
qed

lemma uniform_bounds:
  assumes "0 \<le> shd g" and "shd g \<le> 1"
  shows "- fl 0.05 \<le> fst (uniform (- fl 0.05) (fl 0.05) g) \<and>
         fst (uniform (- fl 0.05) (fl 0.05) g) \<le> fl 0.05"
proof -
  define w where "w = fsub (fl 0.05) (- fl 0.05)"
  have w: "w = 3602879701896397 / 36028797018963968"
    by (simp add: w_def fsub_def fl_vals)
  have "w * 0 \<le> w * shd g" "w * shd g \<le> w * 1"
    using assms w by (simp_all add: mult_left_mono)
  then have "fl (w * 0) \<le> fmul w (shd g)" "fmul w (shd g) \<le> fl (w * 1)"
    unfolding fmul_def by (simp_all only: fl_mono)
  then have "0 \<le> fmul w (shd g)" "fmul w (shd g) \<le> w"
    by (simp_all add: fl_zero w fl_vals)
  then have "- fl 0.05 + 0 \<le> - fl 0.05 + fmul w (shd g)"
    "- fl 0.05 + fmul w (shd g) \<le> - fl 0.05 + w"
    by simp_all
  then have "fl (- fl 0.05 + 0) \<le> fadd (- fl 0.05) (fmul w (shd g))"
    "fadd (- fl 0.05) (fmul w (shd g)) \<le> fl (- fl 0.05 + w)"
    unfolding fadd_def by (simp_all only: fl_mono)
  moreover have "fl (- fl 0.05 + 0) = - fl 0.05"
    by (simp add: fl_vals fl_minus)
  moreover have "fl (- fl 0.05 + w) = fl 0.05"
    by (simp add: fl_vals w)
  ultimately show ?thesis by (simp add: uniform_def w_def)
qed

lemma gen_row_coords:
  assumes "0 \<le> shd g" and "shd g \<le> 1" and "0 \<le> shd (stl g)" and "shd (stl g) \<le> 1"
  shows "fadd base_lat (- fl 0.05) \<le> lat (fst (gen_row g)) \<and>
         lat (fst (gen_row g)) \<le> fadd base_lat (fl 0.05) \<and>
         fadd base_lon (- fl 0.05) \<le> lon (fst (gen_row g)) \<and>
         lon (fst (gen_row g)) \<le> fadd base_lon (fl 0.05)"
proof -
  have la: "lat (fst (gen_row g)) = fadd base_lat (fst (uniform (- fl 0.05) (fl 0.05) g))"
    by (simp add: gen_row_def split_beta Let_def)
  have lo: "lon (fst (gen_row g)) = fadd base_lon (fst (uniform (- fl 0.05) (fl 0.05) (stl g)))"
    by (simp add: gen_row_def split_beta Let_def uniform_def)
  have m: "a \<le> u \<Longrightarrow> u \<le> b \<Longrightarrow> fadd c a \<le> fadd c u \<and> fadd c u \<le> fadd c b" for a b c u
    unfolding fadd_def by (simp add: fl_mono)
  from m [of "- fl 0.05" _ "fl 0.05" base_lat] uniform_bounds [OF assms(1,2)]
    m [of "- fl 0.05" _ "fl 0.05" base_lon] uniform_bounds [OF assms(3,4)]
  show ?thesis unfolding la lo by blast
qed

lemma gen_rows_coords:
  assumes "\<forall>r\<in>sset g. 0 \<le> r \<and> r < 1" and "p \<in> set (fst (gen_rows n g))"
  shows "fadd base_lat (- fl 0.05) \<le> lat p \<and> lat p \<le> fadd base_lat (fl 0.05) \<and>
         fadd base_lon (- fl 0.05) \<le> lon p \<and> lon p \<le> fadd base_lon (fl 0.05)"
  using assms
proof (induction n arbitrary: g)
  case 0
  then show ?case by simp
next
  case (Suc n)
  have h1: "0 \<le> shd g \<and> shd g \<le> 1"
    using Suc.prems(1) shd_sset [of g] by fastforce
  have h2: "0 \<le> shd (stl g) \<and> shd (stl g) \<le> 1"
    using Suc.prems(1) shd_sset [of "stl g"] stl_sset [of _ g] by fastforce
  have rest: "\<forall>r\<in>sset (snd (gen_row g)). 0 \<le> r \<and> r < 1"
    using Suc.prems(1) by (auto simp: gen_row_rng dest!: stl_sset)
  from Suc.prems(2) have "p = fst (gen_row g) \<or> p \<in> set (fst (gen_rows n (snd (gen_row g))))"
    by (simp add: split_beta Let_def)
  then show ?case
  proof
    assume "p = fst (gen_row g)"
    then show ?thesis using gen_row_coords [of g] h1 h2 by simp
  next
    assume "p \<in> set (fst (gen_rows n (snd (gen_row g))))"
    then show ?thesis using Suc.IH [OF rest] by simp
  qed
qed

lemma choices_thresholds:
  "fst (choices [1, 3, 6] [fl 0.5, fl 0.3, fl 0.2] g) =
     (if fl (shd g) < 1 / 2 then 1
      else if fl (shd g) < 3602879701896397 / 4503599627370496 then 3 else 6)"
proof -
  have b0: "bisect_right a x 0 0 = 0" for a x
    by (subst bisect_right.simps) simp
  have b1: "bisect_right a x (Suc 0) (Suc 0) = Suc 0" for a x
    by (subst bisect_right.simps) simp
  have b2: "bisect_right a x (Suc (Suc 0)) (Suc (Suc 0)) = Suc (Suc 0)" for a x
    by (subst bisect_right.simps) simp
  have b01: "bisect_right a x 0 (Suc 0) = (if x < a ! 0 then 0 else Suc 0)" for a x
    by (subst bisect_right.simps) (simp add: b0 b1)
  have b02: "bisect_right a x 0 (Suc (Suc 0)) =
      (if x < a ! Suc 0 then bisect_right a x 0 (Suc 0) else Suc (Suc 0))" for a x
    by (subst bisect_right.simps) (simp add: b2)
  show ?thesis
    by (simp add: choices_def accumulate_def fadd_def fmul_def Let_def b02 b01 fl_vals)
qed

lemma load_data_first: "fst (gen_row g) \<in> set (fst (load_data g))"
proof -
  have eq: "gen_rows 100 g = gen_rows (Suc 99) g" by simp
  show ?thesis
    unfolding load_data_def eq gen_rows.simps by (simp add: split_beta Let_def)
qed

lemma gen_row_count_eq:
  "count (fst (gen_row g)) =
     (if fl (shd (stl (stl g))) < 1 / 2 then 1
      else if fl (shd (stl (stl g))) < 3602879701896397 / 4503599627370496 then 3 else 6)"
  using choices_thresholds [of "stl (stl g)"]
  by (simp add: gen_row_def uniform_def split_beta Let_def)

lemma gen_row_lat_eq:
  "lat (fst (gen_row g)) =
     fadd base_lat (fadd (- fl 0.05) (fmul (fsub (fl 0.05) (- fl 0.05)) (shd g)))"
  by (simp add: gen_row_def uniform_def split_beta Let_def)

lemma gen_row_lon_eq:
  "lon (fst (gen_row g)) =
     fadd base_lon (fadd (- fl 0.05) (fmul (fsub (fl 0.05) (- fl 0.05)) (shd (stl g))))"
  by (simp add: gen_row_def uniform_def split_beta Let_def)

lemma base_lat_value: "base_lat = 1699243323778977 / 70368744177664"
  by (simp add: base_lat_def fl_vals)

lemma base_lon_value: "base_lon = 8491628576774501 / 70368744177664"
  by (simp add: base_lon_def fl_vals)

lemma gen_row_half:
  "fst (gen_row (sconst (1 / 2))) =
     \<lparr>lat = base_lat, lon = base_lon, count = 3, color = ''orange'', risk = risk_medium\<rparr>"
proof -
  let ?r = "fst (gen_row (sconst (1 / 2)))"
  have c: "count ?r = 3"
    by (simp add: gen_row_count_eq fl_vals)
  have "?r = \<lparr>lat = lat ?r, lon = lon ?r, count = count ?r, color = color ?r, risk = risk ?r\<rparr>"
    by simp
  moreover have "lat ?r = base_lat"
    by (simp add: gen_row_lat_eq fadd_def fsub_def fmul_def fl_vals fl_zero base_lat_value)
  moreover have "lon ?r = base_lon"
    by (simp add: gen_row_lon_eq fadd_def fsub_def fmul_def fl_vals fl_zero base_lon_value)
  moreover have "color ?r = ''orange''" "risk ?r = risk_medium"
    using gen_row_classified [of "sconst (1 / 2)"] c by (simp_all add: classify_def)
  ultimately show ?thesis using c by simp
qed

lemma gen_row_zero_lat:
  "lat (fst (gen_row (0 ## g))) = 6782899546280375 / 281474976710656"
  by (simp add: gen_row_lat_eq fadd_def fsub_def fmul_def fl_vals fl_zero fl_minus base_lat_value)

lemma gen_rows_sconst:
  "gen_rows n (sconst c) = (replicate n (fst (gen_row (sconst c))), sconst c)"
  by (induction n) (simp_all add: split_beta Let_def gen_row_rng)

lemma load_data_half:
  "load_data (sconst (1 / 2)) =
     (replicate 100 \<lparr>lat = base_lat, lon = base_lon, count = 3, color = ''orange'',
                     risk = risk_medium\<rparr>, sconst (1 / 2))"
  by (simp add: load_data_def gen_rows_sconst gen_row_half)

lemma coordinate_bounds:
  "fadd base_lat (- fl 0.05) = 6782899546280375 / 2 ^ 48"
  "fadd base_lat (fl 0.05) = 6811047043951441 / 2 ^ 48"
  "fadd base_lon (- fl 0.05) = 4244055069782809 / 2 ^ 45"
  "fadd base_lon (fl 0.05) = 1061893376747923 / 2 ^ 43"
  by (simp_all add: fadd_def base_lat_value base_lon_value fl_vals fl_minus)

section \<open>Lemmas about memoisation and page loads\<close>

lemma load_data_cached_table:
  "fst (load_data_cached sv) = (case cache sv of Some df \<Rightarrow> df | None \<Rightarrow> fst (load_data (rand sv)))"
  by (simp add: load_data_cached_def split_beta split: option.splits)

lemma load_data_cached_hit:
  "cache sv = Some df \<Longrightarrow> load_data_cached sv = (df, sv)"
  by (simp add: load_data_cached_def)

lemma load_data_cached_miss:
  "cache sv = None \<Longrightarrow>
   load_data_cached sv =
     (fst (load_data (rand sv)),
      \<lparr>cache = Some (fst (load_data (rand sv))), rand = snd (load_data (rand sv)),
       generations = generations sv + 1\<rparr>)"
  by (simp add: load_data_cached_def split_beta)

lemma script_server: "fst (snd (script sv geo w)) = snd (load_data_cached sv)"
  by (simp add: script_def split_beta)

lemma script_page:
  "fst (script sv geo w) = fst (render (fst (load_data_cached sv)) geo w)"
  by (simp add: script_def split_beta)

lemma script_geocoder:
  "snd (snd (script sv geo w)) = snd (render (fst (load_data_cached sv)) geo w)"
  by (simp add: script_def split_beta)

lemma session_hit:
  "cache sv = Some df \<Longrightarrow> session sv geo ws = (fst (renders df geo ws), sv, snd (renders df geo ws))"
proof (induction ws arbitrary: geo)
  case Nil
  show ?case by simp
next
  case (Cons w ws)
  have s: "script sv geo w = (fst (render df geo w), sv, snd (render df geo w))"
    using Cons.prems by (simp add: script_def load_data_cached_hit split_beta)
  show ?case
    by (simp add: s Cons.IH [OF Cons.prems] split_beta)
qed

lemma session_miss:
  assumes "cache sv = None" and "ws \<noteq> []"
  shows "session sv geo ws =
           (fst (renders (fst (load_data (rand sv))) geo ws),
            \<lparr>cache = Some (fst (load_data (rand sv))), rand = snd (load_data (rand sv)),
             generations = generations sv + 1\<rparr>,
            snd (renders (fst (load_data (rand sv))) geo ws))"
proof (cases ws)
  case Nil
  with assms show ?thesis by simp
next
  case (Cons w ws')
  let ?df = "fst (load_data (rand sv))"
  let ?sv = "\<lparr>cache = Some ?df, rand = snd (load_data (rand sv)),
              generations = generations sv + 1\<rparr>"
  have s: "script sv geo w = (fst (render ?df geo w), ?sv, snd (render ?df geo w))"
    using assms(1) by (simp add: script_def load_data_cached_miss split_beta)
  have "cache ?sv = Some ?df" by simp
  from session_hit [OF this]
  show ?thesis by (simp add: Cons s split_beta)
qed

section \<open>Lemmas about the page\<close>

lemma polylines_circle_markers: "polylines (circle_markers df) = []"
  by (induction df) (simp_all add: circle_markers_def)

lemma markers_circle_markers: "markers (circle_markers df) = []"
  by (induction df) (simp_all add: circle_markers_def)

lemma polylines_append: "polylines (xs @ ys) = polylines xs @ polylines ys"
  by (induction xs rule: polylines.induct) simp_all

lemma handler_frame:
  "handler st geo w = (Inr st', geo') \<Longrightarrow> df_accidents st' = df_accidents st"
  by (auto simp: handler_def Let_def split: if_splits prod.splits sum.splits option.splits)

lemma render_table:
  "fst (render df geo w) = Inr pg \<Longrightarrow>
   df_accidents pg = df \<and> risk_chart pg = value_counts df \<and> overview pg = take 5 df"
proof -
  assume a: "fst (render df geo w) = Inr pg"
  let ?st0 = "\<lparr>df_accidents = df, layers = circle_markers df, fit_bounds = None, messages = []\<rparr>"
  from a obtain st geo1 where h: "handler ?st0 geo w = (Inr st, geo1)" and pg: "pg = statistics st"
    by (auto simp: render_def split: prod.splits sum.splits)
  from handler_frame [OF h] have "df_accidents st = df" by simp
  with pg show ?thesis by (simp add: statistics_def)
qed

lemma render_found:
  assumes "run_btn w" and "start_location w \<noteq> []" and "end_location w \<noteq> []"
    and "shd geo (taichung_prefix @ start_location w) = Location slat slon"
    and "shd (stl geo) (taichung_prefix @ end_location w) = Location elat elon"
  shows "render df geo w =
    (Inr \<lparr>df_accidents = df,
          layers = circle_markers df @
            [Marker (slat, slon) ''blue'' ''play'' start_tooltip,
             Marker (elat, elon) ''black'' ''stop'' end_tooltip,
             PolyLine [(slat, slon), (elat, elon)] ''blue'' 2 ''5''],
          fit_bounds = Some [(slat, slon), (elat, elon)],
          messages = Success (start_location w) (end_location w) #
            (if nearby_accidents df (slat, slon) (elat, elon) \<noteq> []
             then [Warning (length (nearby_accidents df (slat, slon) (elat, elon)))
                     (high_risk_count (nearby_accidents df (slat, slon) (elat, elon)))]
             else []),
          risk_chart = value_counts df, overview = take 5 df\<rparr>,
     stl (stl geo))"
  using assms
  by (simp add: render_def handler_def get_coordinates_def statistics_def Let_def)

lemma render_not_found:
  assumes "run_btn w" and "start_location w \<noteq> []" and "end_location w \<noteq> []"
    and "shd geo (taichung_prefix @ start_location w) \<noteq> Raises GeocoderUnavailable"
    and "shd geo (taichung_prefix @ start_location w) \<noteq> Raises GeocoderServiceError"
    and "shd (stl geo) (taichung_prefix @ end_location w) \<noteq> Raises GeocoderUnavailable"
    and "shd (stl geo) (taichung_prefix @ end_location w) \<noteq> Raises GeocoderServiceError"
    and "shd geo (taichung_prefix @ start_location w) \<in> {NoResult, Raises GeocoderTimedOut} \<or>
         shd (stl geo) (taichung_prefix @ end_location w) \<in> {NoResult, Raises GeocoderTimedOut}"
  shows "render df geo w =
    (Inr \<lparr>df_accidents = df, layers = circle_markers df, fit_bounds = None,
          messages = [Error], risk_chart = value_counts df, overview = take 5 df\<rparr>,
     stl (stl geo))"
proof -
  have x: "e = GeocoderTimedOut"
    if "shd geo (taichung_prefix @ start_location w) = Raises e" for e
    using that assms(4,5) by (cases e) simp_all
  have y: "e = GeocoderTimedOut"
    if "shd (stl geo) (taichung_prefix @ end_location w) = Raises e" for e
    using that assms(6,7) by (cases e) simp_all
  show ?thesis
    using assms(1,2,3,8) x y
    by (auto simp: render_def handler_def get_coordinates_def statistics_def Let_def
        split: geocode_reply.splits)
qed

lemma nearby_replicate:
  "nearby_accidents (replicate n r) s e =
     (if between (lat r) (fsub (min (fst s) (fst e)) (fl 0.01)) (fadd (max (fst s) (fst e)) (fl 0.01)) \<and>
         between (lon r) (fsub (min (snd s) (snd e)) (fl 0.01)) (fadd (max (snd s) (snd e)) (fl 0.01))
      then replicate n r else [])"
  by (simp add: nearby_accidents_def Let_def)

lemma high_risk_count_replicate:
  "high_risk_count (replicate n r) = (if 5 \<le> count r then n else 0)"
  by (simp add: high_risk_count_def)

lemma render_half_near:
  "render (fst (load_data (sconst (1 / 2)))) (sconst (\<lambda>q. Location (fl 24.15) (fl 120.67)))
      \<lparr>run_btn = True, start_location = [65], end_location = [66]\<rparr> =
   (Inr \<lparr>df_accidents = fst (load_data (sconst (1 / 2))),
         layers = circle_markers (fst (load_data (sconst (1 / 2)))) @
           [Marker (fl 24.15, fl 120.67) ''blue'' ''play'' start_tooltip,
            Marker (fl 24.15, fl 120.67) ''black'' ''stop'' end_tooltip,
            PolyLine [(fl 24.15, fl 120.67), (fl 24.15, fl 120.67)] ''blue'' 2 ''5''],
         fit_bounds = Some [(fl 24.15, fl 120.67), (fl 24.15, fl 120.67)],
         messages = [Success [65] [66], Warning 100 0],
         risk_chart = value_counts (fst (load_data (sconst (1 / 2)))),
         overview = take 5 (fst (load_data (sconst (1 / 2))))\<rparr>,
    sconst (\<lambda>q. Location (fl 24.15) (fl 120.67)))"
  by (subst render_found [where slat = "fl 24.15" and slon = "fl 120.67"
        and elat = "fl 24.15" and elon = "fl 120.67"])
     (simp_all add: load_data_half nearby_replicate between_def high_risk_count_replicate
        fadd_def fsub_def fl_vals base_lat_value base_lon_value)

lemma render_half_far:
  "render (fst (load_data (sconst (1 / 2)))) (sconst (\<lambda>q. Location (fl 24.3) (fl 120.7)))
      \<lparr>run_btn = True, start_location = [65], end_location = [66]\<rparr> =
   (Inr \<lparr>df_accidents = fst (load_data (sconst (1 / 2))),
         layers = circle_markers (fst (load_data (sconst (1 / 2)))) @
           [Marker (fl 24.3, fl 120.7) ''blue'' ''play'' start_tooltip,
            Marker (fl 24.3, fl 120.7) ''black'' ''stop'' end_tooltip,
            PolyLine [(fl 24.3, fl 120.7), (fl 24.3, fl 120.7)] ''blue'' 2 ''5''],
         fit_bounds = Some [(fl 24.3, fl 120.7), (fl 24.3, fl 120.7)],
         messages = [Success [65] [66]],
         risk_chart = value_counts (fst (load_data (sconst (1 / 2)))),
         overview = take 5 (fst (load_data (sconst (1 / 2))))\<rparr>,
    sconst (\<lambda>q. Location (fl 24.3) (fl 120.7)))"
  by (subst render_found [where slat = "fl 24.3" and slon = "fl 120.7"
        and elat = "fl 24.3" and elon = "fl 120.7"])
     (simp_all add: load_data_half nearby_replicate between_def high_risk_count_replicate
        fadd_def fsub_def fl_vals base_lat_value base_lon_value)

section \<open>Properties of the classification\<close>

text \<open>
  C10. The low bucket of the classification is the whole range below 2: every count
  less than 2, zero and negative counts included, gets the colour green and the label
  saying that the incident occurred once.
\<close>

theorem classify_low_bucket:
  "c < 2 \<Longrightarrow> classify c = (''green'', risk_low)"
  by (simp add: classify_def)

theorem classify_low_bucket_witness:
  "(0::int) < 2 \<and> classify 0 = (''green'', risk_low) \<and> classify (- 3) = (''green'', risk_low)"
  using classify_low_bucket [of 0] classify_low_bucket [of "- 3"] by simp

text \<open>
  C1. The classification puts a count of 5 or more in the bucket red with the high-risk
  label, a count from 2 to 4 in the bucket orange with the medium-risk label, and the
  count 1 in the bucket green with the low-risk label; every row of a generated table
  carries the colour and label of its count, and its count lies in one of the three
  ranges.
\<close>

theorem classification_buckets:
  "(5 \<le> c \<longrightarrow> classify c = (''red'', risk_high)) \<and>
   (2 \<le> c \<and> c \<le> 4 \<longrightarrow> classify c = (''orange'', risk_medium)) \<and>
   (c = 1 \<longrightarrow> classify c = (''green'', risk_low)) \<and>
   (\<forall>p\<in>set (fst (load_data g)).
      (color p, risk p) = classify (count p) \<and>
      (5 \<le> count p \<or> (2 \<le> count p \<and> count p \<le> 4) \<or> count p = 1))"
proof -
  have "(color p, risk p) = classify (count p) \<and>
        (5 \<le> count p \<or> (2 \<le> count p \<and> count p \<le> 4) \<or> count p = 1)"
    if "p \<in> set (fst (load_data g))" for p
    using gen_rows_classified [of p 100 g] gen_rows_count [of p 100 g] that
    by (auto simp: load_data_def)
  then show ?thesis by (simp add: classify_def)
qed

theorem classification_buckets_witness:
  "classify 6 = (''red'', risk_high) \<and> classify 3 = (''orange'', risk_medium) \<and>
   classify 1 = (''green'', risk_low) \<and>
   \<lparr>lat = base_lat, lon = base_lon, count = 3, color = ''orange'', risk = risk_medium\<rparr>
     \<in> set (fst (load_data (sconst (1 / 2)))) \<and>
   (''orange'', risk_medium) = classify 3"
  using classification_buckets [of 6 "sconst (1 / 2)"]
    classification_buckets [of 3 "sconst (1 / 2)"]
    classification_buckets [of 1 "sconst (1 / 2)"]
    load_data_first [of "sconst (1 / 2)"]
  by (simp add: gen_row_half)

section \<open>Properties of the generated table\<close>

text \<open>
  C8. Every generated incident count is 1, 3 or 6; so in a generated table every orange
  row has count 3 and every red row has count 6.
\<close>

theorem generated_counts:
  "p \<in> set (fst (load_data g)) \<Longrightarrow>
   count p \<in> {1, 3, 6} \<and> (color p = ''orange'' \<longrightarrow> count p = 3) \<and>
   (color p = ''red'' \<longrightarrow> count p = 6)"
proof -
  assume p: "p \<in> set (fst (load_data g))"
  then have c: "count p \<in> {1, 3, 6}"
    using gen_rows_count [of p 100 g] by (simp add: load_data_def)
  from p have "(color p, risk p) = classify (count p)"
    using gen_rows_classified [of p 100 g] by (simp add: load_data_def)
  with c show ?thesis by (auto simp: classify_def)
qed

theorem generated_counts_witness:
  "\<lparr>lat = base_lat, lon = base_lon, count = 3, color = ''orange'', risk = risk_medium\<rparr>
     \<in> set (fst (load_data (sconst (1 / 2)))) \<and>
   count \<lparr>lat = base_lat, lon = base_lon, count = 3, color = ''orange'', risk = risk_medium\<rparr>
     \<in> {1, 3, 6}"
  using generated_counts [of "fst (gen_row (sconst (1 / 2)))" "sconst (1 / 2)"]
    load_data_first [of "sconst (1 / 2)"]
  by (simp add: gen_row_half)

text \<open>
  C6, as amended. When the generator yields values in the half-open unit interval, as
  \<open>random.random()\<close> does, every generated row has its latitude between the doubles
  \<open>24.1477 - 0.05\<close> and \<open>24.1477 + 0.05\<close> and its longitude between the doubles
  \<open>120.6733 - 0.05\<close> and \<open>120.6733 + 0.05\<close>, each difference and sum rounded to double
  precision. The table is created at most once in a page load: the body of \<open>load_data\<close>
  runs once if the page load finds the cache empty and makes at least one run, and not
  at all otherwise.
\<close>

theorem generated_coordinates:
  assumes "\<forall>r\<in>sset g. 0 \<le> r \<and> r < 1"
  shows "(\<forall>p\<in>set (fst (load_data g)).
            fsub base_lat (fl 0.05) \<le> lat p \<and> lat p \<le> fadd base_lat (fl 0.05) \<and>
            fsub base_lon (fl 0.05) \<le> lon p \<and> lon p \<le> fadd base_lon (fl 0.05)) \<and>
         generations (fst (snd (session sv geo ws))) =
           generations sv + (if cache sv = None \<and> ws \<noteq> [] then 1 else 0)"
proof -
  have "fsub base_lat (fl 0.05) \<le> lat p \<and> lat p \<le> fadd base_lat (fl 0.05) \<and>
        fsub base_lon (fl 0.05) \<le> lon p \<and> lon p \<le> fadd base_lon (fl 0.05)"
    if "p \<in> set (fst (load_data g))" for p
    using gen_rows_coords [OF assms, of p 100] that by (simp add: load_data_def fsub_def fadd_def)
  moreover have "generations (fst (snd (session sv geo ws))) =
           generations sv + (if cache sv = None \<and> ws \<noteq> [] then 1 else 0)"
  proof (cases "cache sv")
    case None
    then show ?thesis
      by (cases "ws = []") (simp_all add: session_miss)
  next
    case (Some df)
    then show ?thesis by (simp add: session_hit)
  qed
  ultimately show ?thesis by blast
qed

theorem generated_coordinates_witness:
  "\<lparr>lat = base_lat, lon = base_lon, count = 3, color = ''orange'', risk = risk_medium\<rparr>
     \<in> set (fst (load_data (sconst (1 / 2)))) \<and>
   fsub base_lat (fl 0.05) \<le> base_lat \<and> base_lat \<le> fadd base_lat (fl 0.05) \<and>
   fsub base_lon (fl 0.05) \<le> base_lon \<and> base_lon \<le> fadd base_lon (fl 0.05) \<and>
   generations (fst (snd (session \<lparr>cache = None, rand = sconst (1 / 2), generations = 0\<rparr>
      (sconst (\<lambda>q. NoResult))
      [\<lparr>run_btn = False, start_location = [], end_location = []\<rparr>,
       \<lparr>run_btn = True, start_location = [65], end_location = [66]\<rparr>]))) = 1"
proof -
  have h: "\<forall>r\<in>sset (sconst (1 / 2 :: real)). 0 \<le> r \<and> r < 1" by simp
  from generated_coordinates [OF h,
      of "\<lparr>cache = None, rand = sconst (1 / 2), generations = 0\<rparr>" "sconst (\<lambda>q. NoResult)"
         "[\<lparr>run_btn = False, start_location = [], end_location = []\<rparr>,
           \<lparr>run_btn = True, start_location = [65], end_location = [66]\<rparr>]"]
    load_data_first [of "sconst (1 / 2)"]
  show ?thesis by (force simp: gen_row_half simp del: session.simps)
qed

text \<open>
  C6, as stated, fails twice. When \<open>random.random()\<close> returns 0 the generated latitude is
  the double \<open>24.1477 - 0.05\<close>, which is smaller than the real number 24.0977. And a page
  load that finds the table in the cache creates no table: the count of generations
  stays at 1.
\<close>

theorem generated_coordinates_counterexample:
  "fst (gen_row (0 ## sconst (1 / 2))) \<in> set (fst (load_data (0 ## sconst (1 / 2)))) \<and>
   lat (fst (gen_row (0 ## sconst (1 / 2)))) < 24.1477 - 0.05 \<and>
   generations (fst (snd (session
      \<lparr>cache = Some (fst (load_data (sconst (1 / 2)))), rand = sconst (1 / 2), generations = 1\<rparr>
      (sconst (\<lambda>q. NoResult))
      [\<lparr>run_btn = False, start_location = [], end_location = []\<rparr>,
       \<lparr>run_btn = True, start_location = [65], end_location = [66]\<rparr>]))) = 1"
proof -
  have "lat (fst (gen_row (0 ## sconst (1 / 2)))) < 24.1477 - 0.05"
    by (simp add: gen_row_zero_lat)
  then show ?thesis
    by (simp add: load_data_first session_hit del: session.simps)
qed

section \<open>Properties of the proximity filter\<close>

text \<open>
  C2, as amended. For every table and every pair of start and end coordinates, the
  proximity filter keeps exactly the rows whose latitude lies between the smaller of the
  two latitudes minus 0.01 and the larger plus 0.01, and whose longitude lies between
  the smaller of the two longitudes minus 0.01 and the larger plus 0.01, in the order of
  the table, where each of the four bounds is the double that the subtraction or
  addition yields, not the exact difference or sum.
\<close>

theorem nearby_is_box_filter:
  "nearby_accidents df (slat, slon) (elat, elon) =
     filter (\<lambda>p. fsub (min slat elat) (fl 0.01) \<le> lat p \<and>
                  lat p \<le> fadd (max slat elat) (fl 0.01) \<and>
                  fsub (min slon elon) (fl 0.01) \<le> lon p \<and>
                  lon p \<le> fadd (max slon elon) (fl 0.01)) df \<and>
   (p \<in> set (nearby_accidents df (slat, slon) (elat, elon)) \<longleftrightarrow>
      p \<in> set df \<and>
      fsub (min slat elat) (fl 0.01) \<le> lat p \<and> lat p \<le> fadd (max slat elat) (fl 0.01) \<and>
      fsub (min slon elon) (fl 0.01) \<le> lon p \<and> lon p \<le> fadd (max slon elon) (fl 0.01))"
  by (auto simp: nearby_accidents_def between_def Let_def intro: filter_cong)

theorem nearby_is_box_filter_witness:
  "nearby_accidents
     [\<lparr>lat = fl 24.15, lon = fl 120.68, count = 6, color = ''red'', risk = risk_high\<rparr>,
      \<lparr>lat = fl 24.19, lon = fl 120.68, count = 1, color = ''green'', risk = risk_low\<rparr>,
      \<lparr>lat = fl 24.139, lon = fl 120.65, count = 3, color = ''orange'', risk = risk_medium\<rparr>]
     (fl 24.17, fl 120.66) (fl 24.14, fl 120.69) =
     [\<lparr>lat = fl 24.15, lon = fl 120.68, count = 6, color = ''red'', risk = risk_high\<rparr>,
      \<lparr>lat = fl 24.139, lon = fl 120.65, count = 3, color = ''orange'', risk = risk_medium\<rparr>]"
  using nearby_is_box_filter [of
     "[\<lparr>lat = fl 24.15, lon = fl 120.68, count = 6, color = ''red'', risk = risk_high\<rparr>,
      \<lparr>lat = fl 24.19, lon = fl 120.68, count = 1, color = ''green'', risk = risk_low\<rparr>,
      \<lparr>lat = fl 24.139, lon = fl 120.65, count = 3, color = ''orange'', risk = risk_medium\<rparr>]"
     "fl 24.17" "fl 120.66" "fl 24.14" "fl 120.69"]
  by (simp add: fl_vals fadd_def fsub_def)

text \<open>
  C2, as stated, fails: with start and end both at the doubles (24.15, 120.67), the
  lower latitude bound the code computes is the double 24.139999999999997, and the row
  at that latitude is kept although its latitude is smaller than the exact difference
  of the start latitude and 0.01.
\<close>

theorem nearby_is_box_filter_counterexample:
  "nearby_accidents
     [\<lparr>lat = 6794805937795235 / 2 ^ 48, lon = fl 120.67, count = 1, color = ''green'',
       risk = risk_low\<rparr>]
     (fl 24.15, fl 120.67) (fl 24.15, fl 120.67) =
     [\<lparr>lat = 6794805937795235 / 2 ^ 48, lon = fl 120.67, count = 1, color = ''green'',
       risk = risk_low\<rparr>] \<and>
   lat \<lparr>lat = 6794805937795235 / 2 ^ 48, lon = fl 120.67, count = 1, color = ''green'',
        risk = risk_low\<rparr> < min (fl 24.15) (fl 24.15) - 0.01"
  by (simp add: nearby_accidents_def between_def Let_def fl_vals fadd_def fsub_def)

text \<open>
  C9. The filtered nearby rows are rows of the table, the number of them with count 5
  or more is at most their number, and in every warning a run of the script shows the
  high-risk number is at most the total.
\<close>

theorem nearby_subset_and_counts:
  "set (nearby_accidents df start_coords end_coords) \<subseteq> set df \<and>
   high_risk_count (nearby_accidents df start_coords end_coords)
     \<le> length (nearby_accidents df start_coords end_coords) \<and>
   (fst (script sv geo w) = Inr pg \<and> Warning n k \<in> set (messages pg) \<longrightarrow> k \<le> n)"
proof -
  have a: "set (nearby_accidents df start_coords end_coords) \<subseteq> set df"
    by (auto simp: nearby_accidents_def Let_def)
  have b: "high_risk_count t \<le> length t" for t
    by (simp add: high_risk_count_def)
  have c: "k \<le> n" if "fst (render t geo w) = Inr pg" "Warning n k \<in> set (messages pg)" for t
    using that b
    by (auto simp: render_def handler_def get_coordinates_def statistics_def Let_def
        split: if_splits geocode_reply.splits)
  show ?thesis using a b c by (auto simp: script_page)
qed

theorem nearby_subset_and_counts_witness:
  "fst (script \<lparr>cache = None, rand = sconst (1 / 2), generations = 0\<rparr>
      (sconst (\<lambda>q. Location (fl 24.15) (fl 120.67)))
      \<lparr>run_btn = True, start_location = [65], end_location = [66]\<rparr>) =
     Inr \<lparr>df_accidents = fst (load_data (sconst (1 / 2))),
         layers = circle_markers (fst (load_data (sconst (1 / 2)))) @
           [Marker (fl 24.15, fl 120.67) ''blue'' ''play'' start_tooltip,
            Marker (fl 24.15, fl 120.67) ''black'' ''stop'' end_tooltip,
            PolyLine [(fl 24.15, fl 120.67), (fl 24.15, fl 120.67)] ''blue'' 2 ''5''],
         fit_bounds = Some [(fl 24.15, fl 120.67), (fl 24.15, fl 120.67)],
         messages = [Success [65] [66], Warning 100 0],
         risk_chart = value_counts (fst (load_data (sconst (1 / 2)))),
         overview = take 5 (fst (load_data (sconst (1 / 2))))\<rparr> \<and>
   (0::nat) \<le> 100 \<and>
   set (nearby_accidents (fst (load_data (sconst (1 / 2)))) (fl 24.15, fl 120.67)
          (fl 24.15, fl 120.67))
     \<subseteq> set (fst (load_data (sconst (1 / 2))))"
proof -
  let ?sv = "\<lparr>cache = None, rand = sconst (1 / 2), generations = 0\<rparr>"
  let ?geo = "sconst (\<lambda>q. Location (fl 24.15) (fl 120.67))"
  let ?w = "\<lparr>run_btn = True, start_location = [65], end_location = [66]\<rparr>"
  have "fst (script ?sv ?geo ?w) = fst (render (fst (load_data (sconst (1 / 2)))) ?geo ?w)"
    by (simp add: script_page load_data_cached_table)
  then have p: "fst (script ?sv ?geo ?w) = Inr \<lparr>df_accidents = fst (load_data (sconst (1 / 2))),
         layers = circle_markers (fst (load_data (sconst (1 / 2)))) @
           [Marker (fl 24.15, fl 120.67) ''blue'' ''play'' start_tooltip,
            Marker (fl 24.15, fl 120.67) ''black'' ''stop'' end_tooltip,
            PolyLine [(fl 24.15, fl 120.67), (fl 24.15, fl 120.67)] ''blue'' 2 ''5''],
         fit_bounds = Some [(fl 24.15, fl 120.67), (fl 24.15, fl 120.67)],
         messages = [Success [65] [66], Warning 100 0],
         risk_chart = value_counts (fst (load_data (sconst (1 / 2)))),
         overview = take 5 (fst (load_data (sconst (1 / 2))))\<rparr>"
    by (simp only: render_half_near fst_conv)
  from nearby_subset_and_counts [of "fst (load_data (sconst (1 / 2)))" "(fl 24.15, fl 120.67)"
      "(fl 24.15, fl 120.67)" ?sv ?geo ?w _ 100 0] p
  show ?thesis by simp
qed

section \<open>Properties of a query\<close>

text \<open>
  C3, as amended. When the button is pressed with two non-empty addresses and both
  geocode to a location, the page shows the success message and, if at least one row of
  the table lies in the padded bounding box of the two locations, a warning with the
  number of rows in the box and the number of those with count 5 or more; if no row lies
  in the box it shows no warning.
\<close>

theorem nearby_report:
  assumes "run_btn w" and "start_location w \<noteq> []" and "end_location w \<noteq> []"
    and "shd geo (taichung_prefix @ start_location w) = Location slat slon"
    and "shd (stl geo) (taichung_prefix @ end_location w) = Location elat elon"
  shows "\<exists>pg. fst (script sv geo w) = Inr pg \<and>
           messages pg =
           Success (start_location w) (end_location w) #
           (if nearby_accidents (fst (load_data_cached sv)) (slat, slon) (elat, elon) = []
            then []
            else [Warning
                    (length (nearby_accidents (fst (load_data_cached sv)) (slat, slon) (elat, elon)))
                    (length (filter (\<lambda>r. 5 \<le> count r)
                       (nearby_accidents (fst (load_data_cached sv)) (slat, slon) (elat, elon))))])"
  by (simp add: script_page render_found [OF assms] high_risk_count_def)

theorem nearby_report_witness:
  "\<exists>pg. fst (script \<lparr>cache = None, rand = sconst (1 / 2), generations = 0\<rparr>
      (sconst (\<lambda>q. Location (fl 24.15) (fl 120.67)))
      \<lparr>run_btn = True, start_location = [65], end_location = [66]\<rparr>) = Inr pg \<and>
     messages pg = [Success [65] [66], Warning 100 0]"
  using nearby_report [of "\<lparr>run_btn = True, start_location = [65], end_location = [66]\<rparr>"
      "sconst (\<lambda>q. Location (fl 24.15) (fl 120.67))" "fl 24.15" "fl 120.67" "fl 24.15" "fl 120.67"
      "\<lparr>cache = None, rand = sconst (1 / 2), generations = 0\<rparr>"]
  by (simp add: load_data_cached_table load_data_half nearby_replicate between_def
      fadd_def fsub_def fl_vals base_lat_value base_lon_value)

text \<open>
  C3, as stated, fails: with every generated point at the base point (24.1477, 120.6733)
  and both addresses geocoded to (24.3, 120.7), the only message is the success message,
  and no number of hotspots is reported.
\<close>

theorem nearby_report_counterexample:
  "fst (get_coordinates (sconst (\<lambda>q. Location (fl 24.3) (fl 120.7))) [65]) =
     Inr (Some (fl 24.3, fl 120.7)) \<and>
   fst (get_coordinates (stl (sconst (\<lambda>q. Location (fl 24.3) (fl 120.7)))) [66]) =
     Inr (Some (fl 24.3, fl 120.7)) \<and>
   fst (script \<lparr>cache = None, rand = sconst (1 / 2), generations = 0\<rparr>
      (sconst (\<lambda>q. Location (fl 24.3) (fl 120.7)))
      \<lparr>run_btn = True, start_location = [65], end_location = [66]\<rparr>) =
     Inr \<lparr>df_accidents = fst (load_data (sconst (1 / 2))),
         layers = circle_markers (fst (load_data (sconst (1 / 2)))) @
           [Marker (fl 24.3, fl 120.7) ''blue'' ''play'' start_tooltip,
            Marker (fl 24.3, fl 120.7) ''black'' ''stop'' end_tooltip,
            PolyLine [(fl 24.3, fl 120.7), (fl 24.3, fl 120.7)] ''blue'' 2 ''5''],
         fit_bounds = Some [(fl 24.3, fl 120.7), (fl 24.3, fl 120.7)],
         messages = [Success [65] [66]],
         risk_chart = value_counts (fst (load_data (sconst (1 / 2)))),
         overview = take 5 (fst (load_data (sconst (1 / 2))))\<rparr>"
proof -
  let ?sv = "\<lparr>cache = None, rand = sconst (1 / 2), generations = 0\<rparr>"
  let ?geo = "sconst (\<lambda>q. Location (fl 24.3) (fl 120.7))"
  let ?w = "\<lparr>run_btn = True, start_location = [65], end_location = [66]\<rparr>"
  have "fst (script ?sv ?geo ?w) = fst (render (fst (load_data (sconst (1 / 2)))) ?geo ?w)"
    by (simp add: script_page load_data_cached_table)
  then show ?thesis
    by (simp add: render_half_far get_coordinates_def)
qed

text \<open>
  C4, as amended. When the button is pressed with two non-empty addresses, neither
  geocoding call raises an exception other than a timeout, and the geocoding of the
  start or of the end address times out or returns nothing, the page shows the error
  message and nothing else: no polyline, no start or end marker, no fitted bounds and
  no warning are added to the map of circle markers, and the geocoding service has been
  called exactly twice, once per address.
\<close>

theorem geocoding_failure:
  assumes "run_btn w" and "start_location w \<noteq> []" and "end_location w \<noteq> []"
    and "shd geo (taichung_prefix @ start_location w) \<noteq> Raises GeocoderUnavailable"
    and "shd geo (taichung_prefix @ start_location w) \<noteq> Raises GeocoderServiceError"
    and "shd (stl geo) (taichung_prefix @ end_location w) \<noteq> Raises GeocoderUnavailable"
    and "shd (stl geo) (taichung_prefix @ end_location w) \<noteq> Raises GeocoderServiceError"
    and "shd geo (taichung_prefix @ start_location w) \<in> {NoResult, Raises GeocoderTimedOut} \<or>
         shd (stl geo) (taichung_prefix @ end_location w) \<in> {NoResult, Raises GeocoderTimedOut}"
  shows "\<exists>pg. fst (script sv geo w) = Inr pg \<and>
           messages pg = [Error] \<and>
           polylines (layers pg) = [] \<and>
           markers (layers pg) = [] \<and>
           layers pg = circle_markers (fst (load_data_cached sv)) \<and>
           fit_bounds pg = None \<and>
           snd (snd (script sv geo w)) = stl (stl geo)"
  by (simp add: script_page script_geocoder render_not_found [OF assms]
      polylines_circle_markers markers_circle_markers)

theorem geocoding_failure_witness:
  "\<exists>pg. fst (script \<lparr>cache = None, rand = sconst (1 / 2), generations = 0\<rparr>
      ((\<lambda>q. Raises GeocoderTimedOut) ## sconst (\<lambda>q. Location (fl 24.15) (fl 120.67)))
      \<lparr>run_btn = True, start_location = [65], end_location = [66]\<rparr>) = Inr pg \<and>
     messages pg = [Error] \<and> polylines (layers pg) = [] \<and> markers (layers pg) = [] \<and>
     fit_bounds pg = None \<and>
     snd (snd (script \<lparr>cache = None, rand = sconst (1 / 2), generations = 0\<rparr>
        ((\<lambda>q. Raises GeocoderTimedOut) ## sconst (\<lambda>q. Location (fl 24.15) (fl 120.67)))
        \<lparr>run_btn = True, start_location = [65], end_location = [66]\<rparr>)) =
       sconst (\<lambda>q. Location (fl 24.15) (fl 120.67))"
  using geocoding_failure [of "\<lparr>run_btn = True, start_location = [65], end_location = [66]\<rparr>"
      "(\<lambda>q. Raises GeocoderTimedOut) ## sconst (\<lambda>q. Location (fl 24.15) (fl 120.67))"
      "\<lparr>cache = None, rand = sconst (1 / 2), generations = 0\<rparr>"]
  by auto

text \<open>
  C4, as stated, fails: when the geocoding of the start address returns nothing and the
  call for the end address raises \<open>GeocoderUnavailable\<close>, the exception is not caught,
  the run ends at line 90 and no page with an error message is shown.
\<close>

theorem geocoding_failure_counterexample:
  "fst (get_coordinates ((\<lambda>q. NoResult) ## sconst (\<lambda>q. Raises GeocoderUnavailable)) [65]) =
     Inr None \<and>
   fst (script \<lparr>cache = None, rand = sconst (1 / 2), generations = 0\<rparr>
      ((\<lambda>q. NoResult) ## sconst (\<lambda>q. Raises GeocoderUnavailable))
      \<lparr>run_btn = True, start_location = [65], end_location = [66]\<rparr>) =
     Inl GeocoderUnavailable"
  by (simp add: script_page render_def handler_def get_coordinates_def)

text \<open>
  C5. When both addresses geocode to a location, the map holds exactly one polyline and
  its locations are the two points start and end, in that order.
\<close>

theorem straight_path:
  assumes "run_btn w" and "start_location w \<noteq> []" and "end_location w \<noteq> []"
    and "shd geo (taichung_prefix @ start_location w) = Location slat slon"
    and "shd (stl geo) (taichung_prefix @ end_location w) = Location elat elon"
  shows "\<exists>pg. fst (script sv geo w) = Inr pg \<and>
           polylines (layers pg) = [[(slat, slon), (elat, elon)]]"
  by (simp add: script_page render_found [OF assms] polylines_append polylines_circle_markers)

theorem straight_path_witness:
  "\<exists>pg. fst (script \<lparr>cache = None, rand = sconst (1 / 2), generations = 0\<rparr>
      ((\<lambda>q. Location (fl 24.1373) (fl 120.6869)) ## sconst (\<lambda>q. Location (fl 24.1787) (fl 120.6467)))
      \<lparr>run_btn = True, start_location = [65], end_location = [66]\<rparr>) = Inr pg \<and>
     polylines (layers pg) = [[(fl 24.1373, fl 120.6869), (fl 24.1787, fl 120.6467)]]"
  using straight_path [of "\<lparr>run_btn = True, start_location = [65], end_location = [66]\<rparr>"
      "(\<lambda>q. Location (fl 24.1373) (fl 120.6869)) ## sconst (\<lambda>q. Location (fl 24.1787) (fl 120.6467))"
      "fl 24.1373" "fl 120.6869" "fl 24.1787" "fl 120.6467"
      "\<lparr>cache = None, rand = sconst (1 / 2), generations = 0\<rparr>"]
  by simp

section \<open>Properties of the memoised table\<close>

text \<open>
  C7. The handler of a query leaves the table \<open>df_accidents\<close> as it found it, so the
  statistics a run shows after the query are those of the table the memoised call of
  \<open>load_data\<close> returned. A run changes the server state only through that call: with the
  table already in the cache, a run leaves the server state as it was, and its page is
  determined by the cached table, the geocoding service and the widgets alone, so two
  server states that hold the same table give the same page whatever else they hold.
  All runs of a page load draw their pages from one table, and that table is in the
  cache at the end.
\<close>

theorem memoised_table:
  "(handler st geo w = (Inr st', geo') \<longrightarrow> df_accidents st' = df_accidents st) \<and>
   fst (snd (script sv geo w)) = snd (load_data_cached sv) \<and>
   (fst (script sv geo w) = Inr pg \<longrightarrow>
      df_accidents pg = fst (load_data_cached sv) \<and>
      risk_chart pg = value_counts (fst (load_data_cached sv)) \<and>
      overview pg = take 5 (fst (load_data_cached sv))) \<and>
   (cache sv = Some df \<longrightarrow>
      fst (snd (script sv geo w)) = sv \<and> fst (script sv geo w) = fst (render df geo w)) \<and>
   (cache sv = Some df \<and> cache sv' = Some df \<longrightarrow>
      fst (script sv geo w) = fst (script sv' geo w) \<and>
      snd (snd (script sv geo w)) = snd (snd (script sv' geo w))) \<and>
   fst (session sv geo ws) = fst (renders (fst (load_data_cached sv)) geo ws) \<and>
   (ws \<noteq> [] \<longrightarrow> cache (fst (snd (session sv geo ws))) = Some (fst (load_data_cached sv)))"
proof -
  have n: "fst (script sv geo w) = fst (script sv' geo w) \<and>
      snd (snd (script sv geo w)) = snd (snd (script sv' geo w))"
    if "cache sv = Some df" "cache sv' = Some df"
    using that by (simp add: script_page script_geocoder load_data_cached_hit)
  have f: "handler st geo w = (Inr st', geo') \<longrightarrow> df_accidents st' = df_accidents st"
    using handler_frame by blast
  have a: "fst (snd (script sv geo w)) = snd (load_data_cached sv)"
    by (rule script_server)
  have t: "fst (script sv geo w) = Inr pg \<longrightarrow>
      df_accidents pg = fst (load_data_cached sv) \<and>
      risk_chart pg = value_counts (fst (load_data_cached sv)) \<and>
      overview pg = take 5 (fst (load_data_cached sv))"
    using render_table [of "fst (load_data_cached sv)" geo w pg] by (simp add: script_page)
  have b: "fst (snd (script sv geo w)) = sv \<and> fst (script sv geo w) = fst (render df geo w)"
    if "cache sv = Some df"
    using that by (simp add: script_server script_page load_data_cached_hit)
  have c: "fst (session sv geo ws) = fst (renders (fst (load_data_cached sv)) geo ws) \<and>
     (ws \<noteq> [] \<longrightarrow> cache (fst (snd (session sv geo ws))) = Some (fst (load_data_cached sv)))"
  proof (cases "cache sv")
    case None
    show ?thesis
    proof (cases "ws = []")
      case True
      then show ?thesis by simp
    next
      case False
      with None show ?thesis
        by (simp add: session_miss load_data_cached_table)
    qed
  next
    case (Some t)
    then show ?thesis
      by (simp add: session_hit load_data_cached_table)
  qed
  from f a t b n c show ?thesis by blast
qed

theorem memoised_table_witness:
  "cache \<lparr>cache = Some (fst (load_data (sconst (1 / 2)))), rand = sconst (1 / 2),
          generations = 1\<rparr> =
     Some (fst (load_data (sconst (1 / 2)))) \<and>
   fst (snd (script \<lparr>cache = Some (fst (load_data (sconst (1 / 2)))), rand = sconst (1 / 2),
                     generations = 1\<rparr>
      (sconst (\<lambda>q. Location (fl 24.15) (fl 120.67)))
      \<lparr>run_btn = True, start_location = [65], end_location = [66]\<rparr>)) =
     \<lparr>cache = Some (fst (load_data (sconst (1 / 2)))), rand = sconst (1 / 2),
      generations = 1\<rparr> \<and>
   (\<exists>pg. fst (script \<lparr>cache = Some (fst (load_data (sconst (1 / 2)))), rand = sconst (1 / 2),
                       generations = 1\<rparr>
      (sconst (\<lambda>q. Location (fl 24.15) (fl 120.67)))
      \<lparr>run_btn = True, start_location = [65], end_location = [66]\<rparr>) = Inr pg \<and>
      messages pg = [Success [65] [66], Warning 100 0] \<and>
      df_accidents pg = fst (load_data (sconst (1 / 2))) \<and>
      overview pg = take 5 (fst (load_data (sconst (1 / 2))))) \<and>
   cache (fst (snd (session \<lparr>cache = None, rand = sconst (1 / 2), generations = 0\<rparr>
      (sconst (\<lambda>q. Location (fl 24.15) (fl 120.67)))
      [\<lparr>run_btn = True, start_location = [65], end_location = [66]\<rparr>,
       \<lparr>run_btn = True, start_location = [66], end_location = [65]\<rparr>]))) =
     Some (fst (load_data (sconst (1 / 2))))"
proof -
  let ?T = "fst (load_data (sconst (1 / 2)))"
  let ?sv0 = "\<lparr>cache = None, rand = sconst (1 / 2), generations = 0\<rparr>"
  let ?sv1 = "\<lparr>cache = Some ?T, rand = sconst (1 / 2), generations = 1\<rparr>"
  let ?geo = "sconst (\<lambda>q. Location (fl 24.15) (fl 120.67))"
  let ?w1 = "\<lparr>run_btn = True, start_location = [65], end_location = [66]\<rparr>"
  let ?w2 = "\<lparr>run_btn = True, start_location = [66], end_location = [65]\<rparr>"
  let ?pg = "\<lparr>df_accidents = ?T,
         layers = circle_markers ?T @
           [Marker (fl 24.15, fl 120.67) ''blue'' ''play'' start_tooltip,
            Marker (fl 24.15, fl 120.67) ''black'' ''stop'' end_tooltip,
            PolyLine [(fl 24.15, fl 120.67), (fl 24.15, fl 120.67)] ''blue'' 2 ''5''],
         fit_bounds = Some [(fl 24.15, fl 120.67), (fl 24.15, fl 120.67)],
         messages = [Success [65] [66], Warning 100 0],
         risk_chart = value_counts ?T, overview = take 5 ?T\<rparr>"
  have 1: "cache ?sv1 = Some ?T" by simp
  note m = memoised_table [where sv = ?sv1 and geo = ?geo and w = ?w1 and df = ?T and pg = ?pg]
  from m 1 have 2: "fst (snd (script ?sv1 ?geo ?w1)) = ?sv1" by blast
  from m 1 have "fst (script ?sv1 ?geo ?w1) = fst (render ?T ?geo ?w1)" by blast
  then have 3: "fst (script ?sv1 ?geo ?w1) = Inr ?pg"
    by (simp only: render_half_near fst_conv)
  with m have 4: "df_accidents ?pg = fst (load_data_cached ?sv1) \<and>
      overview ?pg = take 5 (fst (load_data_cached ?sv1))" by blast
  have "[?w1, ?w2] \<noteq> []" by simp
  with memoised_table [where sv = ?sv0 and geo = ?geo and ws = "[?w1, ?w2]"]
  have "cache (fst (snd (session ?sv0 ?geo [?w1, ?w2]))) = Some (fst (load_data_cached ?sv0))"
    by blast
  then have 5: "cache (fst (snd (session ?sv0 ?geo [?w1, ?w2]))) = Some ?T"
    by (simp add: load_data_cached_table del: session.simps)
  from 3 have 6: "\<exists>pg. fst (script ?sv1 ?geo ?w1) = Inr pg \<and>
      messages pg = [Success [65] [66], Warning 100 0] \<and>
      df_accidents pg = ?T \<and> overview pg = take 5 ?T"
    by simp
  from 1 2 5 6 show ?thesis by blast
qed

end
